theory Spec2Isabelle
  imports Complex_Main
begin

section \<open>JavaScript numbers as far as the animation clock needs them\<close>

text \<open>
  A frame index is a JavaScript number, and \<open>skip\<close> accepts any number: a number is a
  finite value, one of the two infinities or \<open>NaN\<close>. Arithmetic on the finite values is
  exact (no rounding, and the two zeros are one value). A comparison with \<open>NaN\<close> is false,
  and \<open>NaN\<close> propagates through \<open>+\<close> and \<open>%\<close>. Times in milliseconds and screen
  coordinates are finite numbers with exact arithmetic.
\<close>

datatype jsnum = Num real | PosInf | NegInf | NaN

fun js_add :: "jsnum \<Rightarrow> jsnum \<Rightarrow> jsnum" where
  "js_add (Num a) (Num b) = Num (a + b)"
| "js_add NaN _ = NaN"
| "js_add _ NaN = NaN"
| "js_add PosInf NegInf = NaN"
| "js_add NegInf PosInf = NaN"
| "js_add PosInf _ = PosInf"
| "js_add _ PosInf = PosInf"
| "js_add NegInf _ = NegInf"
| "js_add _ NegInf = NegInf"

text \<open>The operator \<open>%\<close>: \<open>a % b\<close> is \<open>a - b * q\<close> where \<open>q\<close> is the quotient \<open>a / b\<close>
  rounded towards zero, so the remainder takes the sign of the dividend. A zero divisor or
  an infinite dividend gives \<open>NaN\<close>, an infinite divisor gives the dividend.\<close>

definition js_trunc :: "real \<Rightarrow> int" where
  "js_trunc q = (if 0 \<le> q then \<lfloor>q\<rfloor> else \<lceil>q\<rceil>)"

fun js_rem :: "jsnum \<Rightarrow> jsnum \<Rightarrow> jsnum" where
  "js_rem (Num a) (Num b) = (if b = 0 then NaN else Num (a - b * of_int (js_trunc (a / b))))"
| "js_rem (Num a) PosInf = Num a"
| "js_rem (Num a) NegInf = Num a"
| "js_rem _ _ = NaN"

fun js_lt :: "jsnum \<Rightarrow> jsnum \<Rightarrow> bool" where
  "js_lt (Num a) (Num b) = (a < b)"
| "js_lt NaN _ = False"
| "js_lt _ NaN = False"
| "js_lt PosInf _ = False"
| "js_lt _ NegInf = False"
| "js_lt _ PosInf = True"
| "js_lt NegInf _ = True"

fun js_ge :: "jsnum \<Rightarrow> jsnum \<Rightarrow> bool" where
  "js_ge (Num a) (Num b) = (a \<ge> b)"
| "js_ge NaN _ = False"
| "js_ge _ NaN = False"
| "js_ge PosInf _ = True"
| "js_ge _ NegInf = True"
| "js_ge _ PosInf = False"
| "js_ge NegInf _ = False"

text \<open>Reading \<open>xs[k]\<close>: the element at \<open>k\<close> when \<open>k\<close> is a whole number that is an
  index of the array, and \<open>undefined\<close> (here \<open>None\<close>) for every other number.\<close>

fun array_index :: "'a list \<Rightarrow> jsnum \<Rightarrow> nat option" where
  "array_index xs (Num r) =
     (if r = of_int \<lfloor>r\<rfloor> \<and> 0 \<le> r \<and> r < real (length xs) then Some (nat \<lfloor>r\<rfloor>) else None)"
| "array_index xs _ = None"

definition js_index :: "'a list \<Rightarrow> jsnum \<Rightarrow> 'a option" where
  "js_index xs k = (case array_index xs k of Some i \<Rightarrow> Some (xs ! i) | None \<Rightarrow> None)"

definition js_length :: "'a list \<Rightarrow> jsnum" where
  "js_length xs = Num (real (length xs))"

section \<open>Sprites and animations (Drawing/Animation.ts)\<close>

type_synonym vector = "real \<times> real"

record bounding_box =
  left :: real
  top :: real
  right :: real
  bottom :: real

text \<open>The fields of a sprite that \<open>AnimationImpl\<close> reads or writes.\<close>

record sprite =
  sp_anchor :: vector
  sp_rotation :: real
  sp_scale :: vector
  sp_flipVertical :: bool
  sp_flipHorizontal :: bool
  sp_drawWidth :: real
  sp_drawHeight :: real
  sp_width :: real
  sp_height :: real
  sp_localBounds :: bounding_box

datatype js_error = TypeError

text \<open>
  The object's fields, followed by the three things outside it that its methods act on:
  the promises created by \<open>play\<close> (numbered in order of creation; \<open>resolveCalls\<close> lists
  the promises whose resolve function has been called, latest first), the requests handed
  to \<open>engine.playAnimation\<close>, and the calls of \<open>Sprite.draw\<close> (index of the sprite
  in the array and position), latest first.
\<close>

record animation =
  sprites :: "sprite list"
  speed :: real
  currentFrame :: jsnum
  elapsedTime :: real
  resolveDonePlaying :: "nat option"
  anchor :: vector
  rotation :: real
  scale :: vector
  loop :: bool
  freezeFrame :: int
  flipVertical :: bool
  flipHorizontal :: bool
  drawWidth :: real
  drawHeight :: real
  width :: real
  height :: real
  promisesCreated :: nat
  resolveCalls :: "nat list"
  playRequests :: "(real \<times> real) list"
  painted :: "(nat \<times> real \<times> real) list"

text \<open>The constructor; \<open>now\<close> is the value of \<open>Date.now()\<close>, \<open>loop_arg\<close> the optional
  argument. Its two call forms, with positional arguments or with one configuration object,
  make the same assignments.\<close>

definition new_animation :: "real \<Rightarrow> sprite list \<Rightarrow> real \<Rightarrow> bool option \<Rightarrow> animation" where
  "new_animation now sps spd loop_arg =
     (let a = \<lparr> sprites = sps, speed = spd, currentFrame = Num 0, elapsedTime = now,
                resolveDonePlaying = None, anchor = (1/2, 1/2), rotation = 0, scale = (1, 1),
                loop = (case loop_arg of None \<Rightarrow> True | Some l \<Rightarrow> l),
                freezeFrame = -1, flipVertical = False, flipHorizontal = False,
                drawWidth = 0, drawHeight = 0, width = 0, height = 0,
                promisesCreated = 0, resolveCalls = [], playRequests = [], painted = [] \<rparr>
      in case sps of
           [] \<Rightarrow> a
         | s0 # _ \<Rightarrow> a\<lparr> drawHeight := sp_drawHeight s0, drawWidth := sp_drawWidth s0,
                        width := sp_width s0, height := sp_height s0,
                        freezeFrame := int (length sps) - 1 \<rparr>)"

definition localBounds :: "bounding_box \<Rightarrow> animation \<Rightarrow> bounding_box" where
  \<comment> \<open>\<open>new_bb\<close> is the value of \<open>new BoundingBox()\<close>\<close>
  "localBounds new_bb a =
     (case js_index (sprites a) (currentFrame a) of
        Some sprite \<Rightarrow> sp_localBounds sprite
      | None \<Rightarrow> new_bb)"

definition reset :: "animation \<Rightarrow> animation" where
  "reset a = a\<lparr> currentFrame := Num 0 \<rparr>"

definition isDone :: "animation \<Rightarrow> bool" where
  "isDone a = (\<not> loop a \<and> js_ge (currentFrame a) (js_length (sprites a)))"

definition tick :: "real \<Rightarrow> animation \<Rightarrow> animation" where
  "tick delta a =
     (let a1 = (if elapsedTime a \<ge> speed a
                then a\<lparr> currentFrame :=
                           (if loop a
                            then js_rem (js_add (currentFrame a) (Num 1)) (js_length (sprites a))
                            else js_add (currentFrame a) (Num 1)),
                        elapsedTime := 0 \<rparr>
                else a)
      in a1\<lparr> elapsedTime := elapsedTime a1 + delta \<rparr>)"

definition skip :: "jsnum \<Rightarrow> animation \<Rightarrow> animation" where
  "skip frames a =
     a\<lparr> currentFrame := js_rem (js_add (currentFrame a) frames) (js_length (sprites a)) \<rparr>"

definition setAnchor :: "vector \<Rightarrow> animation \<Rightarrow> animation" where
  "setAnchor point a = a\<lparr> sprites := map (\<lambda>s. s\<lparr> sp_anchor := point \<rparr>) (sprites a) \<rparr>"

definition setRotation :: "real \<Rightarrow> animation \<Rightarrow> animation" where
  "setRotation radians a = a\<lparr> sprites := map (\<lambda>s. s\<lparr> sp_rotation := radians \<rparr>) (sprites a) \<rparr>"

definition setScale :: "vector \<Rightarrow> animation \<Rightarrow> animation" where
  "setScale sc a = a\<lparr> sprites := map (\<lambda>s. s\<lparr> sp_scale := sc \<rparr>) (sprites a) \<rparr>"

definition updateValues :: "animation \<Rightarrow> animation" where
  "updateValues a = setScale (scale a) (setRotation (rotation a) (setAnchor (anchor a) a))"

text \<open>Modelled from the spec: \<open>Util.clamp\<close> is not among the sources; the spec writes
  \<open>clamp(freezeFrameIndex, 0, length-1)\<close> and the tests of MathSpec.ts fix its values
  when the lower bound is below the upper one.\<close>

definition clamp :: "int \<Rightarrow> int \<Rightarrow> int \<Rightarrow> int" where
  "clamp val lo hi = min (max lo val) hi"

text \<open>A call either returns or throws; in both cases the object is left in some state.\<close>

datatype 'a outcome = Returns 'a | Throws js_error 'a

fun state_after :: "'a outcome \<Rightarrow> 'a" where
  "state_after (Returns a) = a"
| "state_after (Throws e a) = a"

text \<open>Writing the two flip flags of the sprite at index \<open>i\<close>; the sprite is an object of
  the array, so the array holds the change.\<close>

definition set_flips :: "nat \<Rightarrow> animation \<Rightarrow> animation" where
  "set_flips i a =
     a\<lparr> sprites := (sprites a)[i := (sprites a ! i)
                 \<lparr> sp_flipVertical := flipVertical a, sp_flipHorizontal := flipHorizontal a \<rparr>] \<rparr>"

definition sprite_draw :: "nat \<Rightarrow> real \<Rightarrow> real \<Rightarrow> animation \<Rightarrow> animation" where
  "sprite_draw i x y a = a\<lparr> painted := (i, x, y) # painted a \<rparr>"

text \<open>
  The tail of \<open>draw\<close>, from the assignment of the drawn size on; the argument
  \<open>currSprite\<close> is the index of that sprite in the array, if the variable is defined. The last condition of the source reads
  \<open>this.isDone && this._resolveDonePlaying\<close>: \<open>isDone\<close> is named, not called, and a
  function is truthy, so the condition is that a resolve function is stored.
\<close>

definition draw_finish :: "nat option \<Rightarrow> animation \<Rightarrow> animation" where
  "draw_finish currSprite a =
     (let a1 = (case currSprite of
                  Some i \<Rightarrow> a\<lparr> drawWidth := sp_drawWidth (sprites a ! i),
                               drawHeight := sp_drawHeight (sprites a ! i) \<rparr>
                | None \<Rightarrow> a)
      in case resolveDonePlaying a1 of
           Some p \<Rightarrow> a1\<lparr> resolveCalls := p # resolveCalls a1 \<rparr>
         | None \<Rightarrow> a1)"

text \<open>The freeze-frame branch and what follows it.\<close>

definition draw_freeze :: "real \<Rightarrow> real \<Rightarrow> nat option \<Rightarrow> animation \<Rightarrow> animation outcome" where
  "draw_freeze x y currSprite a =
     (if freezeFrame a \<noteq> -1 \<and> js_ge (currentFrame a) (js_length (sprites a))
      then (let j = clamp (freezeFrame a) 0 (int (length (sprites a)) - 1)
            in case array_index (sprites a) (Num (of_int j)) of
                 None \<Rightarrow> Throws TypeError a
               | Some i \<Rightarrow> Returns (draw_finish (Some i) (sprite_draw i x y a)))
      else Returns (draw_finish currSprite a))"

definition draw :: "real \<Rightarrow> real \<Rightarrow> animation \<Rightarrow> animation outcome" where
  "draw x y a0 =
     (let a = updateValues a0
      in if js_lt (currentFrame a) (js_length (sprites a))
         then (case array_index (sprites a) (currentFrame a) of
                 None \<Rightarrow> Throws TypeError a
               | Some i \<Rightarrow> draw_freeze x y (Some i) (sprite_draw i x y (set_flips i a)))
         else draw_freeze x y None a)"

text \<open>\<open>play\<close> returns the new promise, whose executor stores its resolve function.\<close>

definition play :: "real \<Rightarrow> real \<Rightarrow> animation \<Rightarrow> nat \<times> animation" where
  "play x y a =
     (let a1 = reset a;
          a2 = a1\<lparr> playRequests := (x, y) # playRequests a1 \<rparr>;
          p = promisesCreated a2
      in (p, a2\<lparr> promisesCreated := p + 1, resolveDonePlaying := Some p \<rparr>))"

text \<open>A promise is resolved once its resolve function has been called; further calls of
  the function have no effect on it.\<close>

definition resolved :: "nat \<Rightarrow> animation \<Rightarrow> bool" where
  "resolved p a = (p \<in> set (resolveCalls a))"

subsection \<open>Sequences of public operations\<close>

datatype op = Tick real | Skip jsnum | Reset | Draw real real | Play real real

text \<open>The state of the object after one call, whether it returned or threw.\<close>

fun exec :: "op \<Rightarrow> animation \<Rightarrow> animation" where
  "exec (Tick d) a = tick d a"
| "exec (Skip n) a = skip n a"
| "exec Reset a = reset a"
| "exec (Draw x y) a = state_after (draw x y a)"
| "exec (Play x y) a = snd (play x y a)"

fun run :: "op list \<Rightarrow> animation \<Rightarrow> animation" where
  "run [] a = a"
| "run (c # cs) a = run cs (exec c a)"

section \<open>Groups of graphics (Graphics/GraphicsGroup.ts)\<close>

text \<open>
  A member of a group is a position and a graphic. The graphic is an \<open>Animation\<close> of the
  Graphics directory, a nested group, or any other graphic (a static image). The class
  \<open>Animation\<close> of that directory is not among the sources: its objects are values of a
  type parameter and its \<open>tick\<close> method is a parameter of the group's \<open>tick\<close>.
\<close>

datatype ('a, 'i) graphic =
    Animation 'a
  | GraphicsGroup "(vector \<times> ('a, 'i) graphic) list"
  | Image 'i

fun isAnimationOrGroup :: "('a, 'i) graphic \<Rightarrow> bool" where
  "isAnimationOrGroup (Animation _) = True"
| "isAnimationOrGroup (GraphicsGroup _) = True"
| "isAnimationOrGroup (Image _) = False"

text \<open>\<open>group_tick\<close> is the loop of \<open>GraphicsGroup.tick\<close> over the members;
  \<open>graphic_tick\<close> is the call \<open>maybeAnimation.tick(elapsedMilliseconds)\<close> behind the
  type test.\<close>

fun group_tick :: "(real \<Rightarrow> 'a \<Rightarrow> 'a) \<Rightarrow> real \<Rightarrow> (vector \<times> ('a, 'i) graphic) list
                     \<Rightarrow> (vector \<times> ('a, 'i) graphic) list"
  and graphic_tick :: "(real \<Rightarrow> 'a \<Rightarrow> 'a) \<Rightarrow> real \<Rightarrow> ('a, 'i) graphic \<Rightarrow> ('a, 'i) graphic" where
  "group_tick atick elapsedMilliseconds [] = []"
| "group_tick atick elapsedMilliseconds ((pos, maybeAnimation) # members) =
     (pos, graphic_tick atick elapsedMilliseconds maybeAnimation)
       # group_tick atick elapsedMilliseconds members"
| "graphic_tick atick elapsedMilliseconds (Animation a) = Animation (atick elapsedMilliseconds a)"
| "graphic_tick atick elapsedMilliseconds (GraphicsGroup members) =
     GraphicsGroup (group_tick atick elapsedMilliseconds members)"
| "graphic_tick atick elapsedMilliseconds (Image i) = Image i"

section \<open>Off-screen culling (OffscreenCullingModule.update)\<close>

datatype event = ExitViewPortEvent | EnterViewPortEvent

text \<open>What \<open>update\<close> reads of the actor and the engine. \<open>camera_zoom\<close> is \<open>None\<close>
  when the actor has no scene or the scene no camera; \<open>published\<close> lists the events
  handed to the actor's event dispatcher, in order.\<close>

record actor =
  isOffScreen :: bool
  actor_anchor :: vector
  actor_scale :: vector
  getGlobalScale :: vector
  getWidth :: real
  getHeight :: real
  getGlobalX :: real
  getGlobalY :: real
  camera_zoom :: "real option"
  published :: "(string \<times> event) list"

record engine =
  engine_width :: real
  engine_height :: real
  worldToScreenCoordinates :: "vector \<Rightarrow> vector"

text \<open>The two conditions of \<open>update\<close>, on the screen coordinates, the size, the zoom
  and the size of the viewport.\<close>

definition exit_condition :: "vector \<Rightarrow> real \<Rightarrow> real \<Rightarrow> real \<Rightarrow> engine \<Rightarrow> bool" where
  "exit_condition actorScreenCoords w h zoom e =
     (fst actorScreenCoords + w * zoom < 0 \<or>
      snd actorScreenCoords + h * zoom < 0 \<or>
      fst actorScreenCoords > engine_width e \<or>
      snd actorScreenCoords > engine_height e)"

definition enter_condition :: "vector \<Rightarrow> real \<Rightarrow> real \<Rightarrow> real \<Rightarrow> engine \<Rightarrow> bool" where
  "enter_condition actorScreenCoords w h zoom e =
     (fst actorScreenCoords + w * zoom > 0 \<and>
      snd actorScreenCoords + h * zoom > 0 \<and>
      fst actorScreenCoords < engine_width e \<and>
      snd actorScreenCoords < engine_height e)"

text \<open>The size, the screen coordinates and the zoom that \<open>update\<close> computes first. The
  division is the one of the reals, which is the one of the code as long as the actor's
  own scale has no zero component.\<close>

definition actor_size :: "actor \<Rightarrow> real \<times> real" where
  "actor_size a =
     (fst (getGlobalScale a) * getWidth a / fst (actor_scale a),
      snd (getGlobalScale a) * getHeight a / snd (actor_scale a))"

definition actor_screen_coords :: "actor \<Rightarrow> engine \<Rightarrow> vector" where
  "actor_screen_coords a e =
     worldToScreenCoordinates e
       (getGlobalX a - fst (actor_anchor a) * fst (actor_size a),
        getGlobalY a - snd (actor_anchor a) * snd (actor_size a))"

definition actor_zoom :: "actor \<Rightarrow> real" where
  "actor_zoom a = (case camera_zoom a of Some z \<Rightarrow> z | None \<Rightarrow> 1)"

definition update :: "actor \<Rightarrow> engine \<Rightarrow> real \<Rightarrow> actor" where
  "update a e delta =
     (let (w, h) = actor_size a;
          actorScreenCoords = actor_screen_coords a e;
          zoom = actor_zoom a
      in if \<not> isOffScreen a
         then (if exit_condition actorScreenCoords w h zoom e
               then a\<lparr> published := published a @ [(''exitviewport'', ExitViewPortEvent)],
                       isOffScreen := True \<rparr>
               else a)
         else (if enter_condition actorScreenCoords w h zoom e
               then a\<lparr> published := published a @ [(''enterviewport'', EnterViewPortEvent)],
                       isOffScreen := False \<rparr>
               else a))"

section \<open>Observations on states and call sequences\<close>

text \<open>Conditions on the argument of a \<open>skip\<close> in a sequence of calls: a finite number, a
  finite number that is not negative, a whole number that is not negative.\<close>

fun finite_skip :: "op \<Rightarrow> bool" where
  "finite_skip (Skip (Num r)) = True"
| "finite_skip (Skip _) = False"
| "finite_skip _ = True"

fun nonneg_skip :: "op \<Rightarrow> bool" where
  "nonneg_skip (Skip (Num r)) = (0 \<le> r)"
| "nonneg_skip (Skip _) = False"
| "nonneg_skip _ = True"

fun whole_skip :: "op \<Rightarrow> bool" where
  "whole_skip (Skip (Num r)) = (0 \<le> r \<and> r = of_int \<lfloor>r\<rfloor>)"
| "whole_skip (Skip _) = False"
| "whole_skip _ = True"

fun is_draw :: "op \<Rightarrow> bool" where
  "is_draw (Draw x y) = True"
| "is_draw _ = False"

fun is_play :: "op \<Rightarrow> bool" where
  "is_play (Play x y) = True"
| "is_play _ = False"

text \<open>The frame is a finite number below the length of the sequence; a finite number that
  is not negative; a whole number that is not negative.\<close>

definition frame_below :: "animation \<Rightarrow> bool" where
  "frame_below a =
     (case currentFrame a of Num r \<Rightarrow> r < real (length (sprites a)) | _ \<Rightarrow> False)"

definition frame_nonneg :: "animation \<Rightarrow> bool" where
  "frame_nonneg a = (case currentFrame a of Num r \<Rightarrow> 0 \<le> r | _ \<Rightarrow> False)"

definition frame_whole :: "animation \<Rightarrow> bool" where
  "frame_whole a =
     (case currentFrame a of Num r \<Rightarrow> 0 \<le> r \<and> r = of_int \<lfloor>r\<rfloor> | _ \<Rightarrow> False)"

text \<open>A promise that was created, is not resolved and is no longer the stored one.\<close>

definition superseded :: "nat \<Rightarrow> animation \<Rightarrow> bool" where
  "superseded p a = (\<not> resolved p a \<and> resolveDonePlaying a \<noteq> Some p \<and> p < promisesCreated a)"

text \<open>The animations and the images of a group, nested groups included, in member order.\<close>

fun animations_of :: "(vector \<times> ('a, 'i) graphic) list \<Rightarrow> 'a list"
  and graphic_animations :: "('a, 'i) graphic \<Rightarrow> 'a list" where
  "animations_of [] = []"
| "animations_of ((pos, g) # members) = graphic_animations g @ animations_of members"
| "graphic_animations (Animation a) = [a]"
| "graphic_animations (GraphicsGroup members) = animations_of members"
| "graphic_animations (Image i) = []"

fun images_of :: "(vector \<times> ('a, 'i) graphic) list \<Rightarrow> 'i list"
  and graphic_images :: "('a, 'i) graphic \<Rightarrow> 'i list" where
  "images_of [] = []"
| "images_of ((pos, g) # members) = graphic_images g @ images_of members"
| "graphic_images (Animation a) = []"
| "graphic_images (GraphicsGroup members) = images_of members"
| "graphic_images (Image i) = [i]"

section \<open>Sample values\<close>

text \<open>A sprite of a given size, for the concrete instances below.\<close>

definition a_sprite :: "real \<Rightarrow> real \<Rightarrow> sprite" where
  "a_sprite w h = \<lparr> sp_anchor = (0, 0), sp_rotation = 0, sp_scale = (1, 1),
     sp_flipVertical = False, sp_flipHorizontal = False, sp_drawWidth = w, sp_drawHeight = h,
     sp_width = w, sp_height = h,
     sp_localBounds = \<lparr> left = 0, top = 0, right = w, bottom = h \<rparr> \<rparr>"

text \<open>A non-looping and a looping animation of two frames, 100 ms each, and the
  non-looping one after it was played to its end and drawn.\<close>

definition two_frames :: animation where
  "two_frames = new_animation 1700000000000 [a_sprite 1 1, a_sprite 2 2] 100 (Some False)"

definition two_frames_looping :: animation where
  "two_frames_looping = new_animation 1700000000000 [a_sprite 1 1, a_sprite 2 2] 100 None"

definition played_out :: animation where
  "played_out = run [Play 0 0, Tick 100, Tick 100, Draw 5 5] two_frames"

text \<open>A viewport of 800 by 600 whose screen coordinates are the world coordinates, and an
  actor of 10 by 10 with its top left corner at a given point.\<close>

definition viewport :: engine where
  "viewport = \<lparr> engine_width = 800, engine_height = 600, worldToScreenCoordinates = (\<lambda>p. p) \<rparr>"

definition an_actor :: "bool \<Rightarrow> real \<Rightarrow> real \<Rightarrow> real option \<Rightarrow> actor" where
  "an_actor off x y z = \<lparr> isOffScreen = off, actor_anchor = (0, 0), actor_scale = (1, 1),
     getGlobalScale = (1, 1), getWidth = 10, getHeight = 10, getGlobalX = x, getGlobalY = y,
     camera_zoom = z, published = [] \<rparr>"

text \<open>An animation that is nothing but the list of the deltas it was ticked with, and a
  group of an image, such an animation and a nested group.\<close>

definition record_delta :: "real \<Rightarrow> real list \<Rightarrow> real list" where
  "record_delta d received = received @ [d]"

definition a_group :: "(vector \<times> (real list, nat) graphic) list" where
  "a_group = [((0, 0), Image 7), ((1, 2), Animation []),
              ((3, 4), GraphicsGroup [((5, 6), Animation [1]), ((7, 8), Image 9)])]"

section \<open>Remainders and comparisons\<close>

lemma js_rem_int:
  assumes "0 \<le> i" "0 < n"
  shows "js_rem (Num (of_int i)) (Num (of_int n)) = Num (of_int (i mod n))"
proof -
  have "0 \<le> (of_int i :: real) / of_int n" using assms by simp
  then have "js_trunc (of_int i / of_int n) = i div n"
    by (simp add: js_trunc_def floor_divide_of_int_eq)
  moreover have "(of_int i :: real) - of_int n * of_int (i div n) = of_int (i mod n)"
    by (simp add: minus_mult_div_eq_mod [symmetric] del: minus_mult_div_eq_mod)
  ultimately show ?thesis using assms(2) by simp
qed

lemma js_rem_length:
  "0 \<le> i \<Longrightarrow> xs \<noteq> [] \<Longrightarrow>
     js_rem (Num (of_int i)) (js_length xs) = Num (of_int (i mod int (length xs)))"
  using js_rem_int [of i "int (length xs)"] by (simp add: js_length_def)

lemma js_trunc_bounds:
  assumes "0 < b"
  shows "a - b * of_int (js_trunc (a / b)) < b"
    and "0 \<le> a \<Longrightarrow> 0 \<le> a - b * of_int (js_trunc (a / b))"
proof -
  have f1: "of_int \<lfloor>a / b\<rfloor> * b \<le> a" using assms by (metis floor_divide_lower)
  have f2: "a < (of_int \<lfloor>a / b\<rfloor> + 1) * b" using assms by (metis floor_divide_upper)
  have c1: "a \<le> of_int \<lceil>a / b\<rceil> * b" using assms by (metis ceiling_divide_upper)
  show "a - b * of_int (js_trunc (a / b)) < b"
    using f2 c1 assms by (simp add: js_trunc_def algebra_simps)
  show "0 \<le> a - b * of_int (js_trunc (a / b))" if "0 \<le> a"
  proof -
    have "0 \<le> a / b" using that assms by simp
    then show ?thesis using f1 by (simp add: js_trunc_def algebra_simps)
  qed
qed

lemma js_rem_bounds:
  assumes "xs \<noteq> []"
  shows "\<exists>r. js_rem (Num a) (js_length xs) = Num r \<and> r < real (length xs) \<and>
              (0 \<le> a \<longrightarrow> 0 \<le> r)"
proof -
  have n: "0 < real (length xs)" using assms by simp
  show ?thesis
    using n js_trunc_bounds [OF n, of a] by (simp add: js_length_def)
qed

lemma js_rem_zero [simp]: "js_rem x (Num 0) = NaN"
  by (cases x) simp_all

lemma js_rem_below:
  "xs \<noteq> [] \<Longrightarrow> \<not> js_ge (js_rem x (js_length xs)) (js_length xs)"
proof (cases x)
  case (Num a)
  assume "xs \<noteq> []"
  then obtain r where "js_rem (Num a) (js_length xs) = Num r" "r < real (length xs)"
    using js_rem_bounds by blast
  with Num show ?thesis by (simp add: js_length_def)
qed (simp_all add: js_length_def)

lemma js_length_map [simp]: "js_length (map f xs) = js_length xs"
  by (simp add: js_length_def)

lemma array_index_map [simp]: "array_index (map f xs) k = array_index xs k"
  by (cases k) simp_all

lemma js_ge_not_lt: "js_ge x y \<Longrightarrow> \<not> js_lt x y"
  by (cases x; cases y) simp_all

lemma js_add_one_not_lt: "\<not> js_lt (js_add x (Num 1)) x"
  by (cases x) simp_all

lemma js_add_one_ge: "js_ge x y \<Longrightarrow> js_ge (js_add x (Num 1)) y"
  by (cases x; cases y) simp_all

section \<open>The animation clock\<close>

lemma loop_new [simp]:
  "loop (new_animation now sps spd lp) = (case lp of None \<Rightarrow> True | Some l \<Rightarrow> l)"
  by (simp add: new_animation_def Let_def split: list.splits)

lemma sprites_new [simp]: "sprites (new_animation now sps spd lp) = sps"
  by (simp add: new_animation_def Let_def split: list.splits)

lemma speed_new [simp]: "speed (new_animation now sps spd lp) = spd"
  by (simp add: new_animation_def Let_def split: list.splits)

lemma currentFrame_new [simp]: "currentFrame (new_animation now sps spd lp) = Num 0"
  by (simp add: new_animation_def Let_def split: list.splits)

lemma elapsedTime_new [simp]: "elapsedTime (new_animation now sps spd lp) = now"
  by (simp add: new_animation_def Let_def split: list.splits)

lemma currentFrame_tick:
  "currentFrame (tick delta a) =
     (if elapsedTime a \<ge> speed a
      then (if loop a then js_rem (js_add (currentFrame a) (Num 1)) (js_length (sprites a))
            else js_add (currentFrame a) (Num 1))
      else currentFrame a)"
  by (simp add: tick_def Let_def)

lemma elapsedTime_tick:
  "elapsedTime (tick delta a) = (if elapsedTime a \<ge> speed a then delta else elapsedTime a + delta)"
  by (simp add: tick_def Let_def)

text \<open>
  C2, as the claim states it, fails: on a fresh looping animation of four frames with a
  frame duration of 100, constructed at the timestamp 1700000000000, one tick of 250 puts
  the frame at 1 and leaves 250 in the accumulator, not 150.
\<close>

theorem tick_example_counterexample:
  "currentFrame (tick 250 (new_animation 1700000000000
      [a_sprite 1 1, a_sprite 1 1, a_sprite 1 1, a_sprite 1 1] 100 (Some True))) = Num 1 \<and>
   elapsedTime (tick 250 (new_animation 1700000000000
      [a_sprite 1 1, a_sprite 1 1, a_sprite 1 1, a_sprite 1 1] 100 (Some True))) = 250 \<and>
   elapsedTime (tick 250 (new_animation 1700000000000
      [a_sprite 1 1, a_sprite 1 1, a_sprite 1 1, a_sprite 1 1] 100 (Some True))) \<noteq> 150"
  by (simp add: tick_def new_animation_def js_length_def js_trunc_def)

text \<open>
  C2, amended: \<open>tick\<close> compares the accumulator with the frame duration before it adds
  the delta. If the accumulator, as the previous calls left it, has reached the frame
  duration, the frame advances by exactly one step and the accumulator restarts from 0;
  then the delta is added in both cases. For a fresh looping animation of four frames with
  a frame duration of 100, constructed at a timestamp of at least 100, one tick of 250
  leaves the frame at 1 and the accumulator at 250.
\<close>

theorem tick_checks_then_accumulates:
  "elapsedTime (tick delta a) = (if elapsedTime a \<ge> speed a then 0 else elapsedTime a) + delta \<and>
   currentFrame (tick delta a) =
     (if elapsedTime a \<ge> speed a
      then (if loop a then js_rem (js_add (currentFrame a) (Num 1)) (js_length (sprites a))
            else js_add (currentFrame a) (Num 1))
      else currentFrame a) \<and>
   (100 \<le> now \<longrightarrow>
      currentFrame (tick 250 (new_animation now [s1, s2, s3, s4] 100 (Some True))) = Num 1 \<and>
      elapsedTime (tick 250 (new_animation now [s1, s2, s3, s4] 100 (Some True))) = 250)"
  by (simp add: currentFrame_tick elapsedTime_tick js_length_def js_trunc_def)

theorem tick_checks_then_accumulates_witness:
  "(100::real) \<le> 1700000000000 \<and>
   currentFrame (tick 250 (new_animation 1700000000000
      [a_sprite 1 1, a_sprite 1 1, a_sprite 1 1, a_sprite 1 1] 100 (Some True))) = Num 1 \<and>
   elapsedTime (tick 250 (new_animation 1700000000000
      [a_sprite 1 1, a_sprite 1 1, a_sprite 1 1, a_sprite 1 1] 100 (Some True))) = 250"
  using tick_checks_then_accumulates [of 0 "new_animation 0 [] 0 None" 1700000000000
      "a_sprite 1 1" "a_sprite 1 1" "a_sprite 1 1" "a_sprite 1 1"]
  by simp

text \<open>
  C10: the accumulator starts at the construction timestamp, so when that timestamp is at
  least the frame duration the first tick advances the frame by one step, whatever its
  delta, and leaves the delta in the accumulator. One step from frame 0 is frame 1 when the
  animation does not loop and \<open>1 % length\<close> when it loops (0 for a single frame,
  \<open>NaN\<close> for no frame).
\<close>

theorem first_tick_advances:
  "spd \<le> now \<Longrightarrow>
     elapsedTime (new_animation now sps spd lp) = now \<and>
     currentFrame (tick delta (new_animation now sps spd lp)) =
       (if lp = Some False then Num 1
        else if sps = [] then NaN
        else Num (of_int (1 mod int (length sps)))) \<and>
     elapsedTime (tick delta (new_animation now sps spd lp)) = delta"
proof -
  assume h: "spd \<le> now"
  have r: "sps \<noteq> [] \<Longrightarrow> js_rem (Num 1) (js_length sps) = Num (of_int (1 mod int (length sps)))"
    using js_rem_length [of 1 sps] by simp
  have e: "sps = [] \<Longrightarrow> js_rem (Num 1) (js_length sps) = NaN"
    by (simp add: js_length_def)
  show ?thesis
    using h r e by (cases lp) (auto simp add: currentFrame_tick elapsedTime_tick)
qed

theorem first_tick_advances_witness:
  "(100::real) \<le> 1700000000000 \<and>
   elapsedTime (new_animation 1700000000000 [a_sprite 1 1, a_sprite 2 2] 100 None)
     = 1700000000000 \<and>
   currentFrame (tick (1/1000) (new_animation 1700000000000 [a_sprite 1 1, a_sprite 2 2] 100 None))
     = Num 1 \<and>
   elapsedTime (tick (1/1000) (new_animation 1700000000000 [a_sprite 1 1, a_sprite 2 2] 100 None))
     = 1/1000"
  using first_tick_advances [of 100 1700000000000 "[a_sprite 1 1, a_sprite 2 2]" None "1/1000"]
  by simp

text \<open>
  C6: one call of \<open>tick\<close> leaves the frame where it is or moves it by one step, whatever
  the delta. One step is \<open>currentFrame + 1\<close> without looping and
  \<open>(currentFrame + 1) % length\<close> with looping; from a whole frame \<open>i \<ge> 0\<close> of a
  non-empty sequence that is \<open>i + 1\<close>, respectively \<open>(i + 1) mod length\<close>.
\<close>

theorem tick_at_most_one_frame:
  "(currentFrame (tick delta a) = currentFrame a \<or>
    currentFrame (tick delta a) =
      (if loop a then js_rem (js_add (currentFrame a) (Num 1)) (js_length (sprites a))
       else js_add (currentFrame a) (Num 1))) \<and>
   (currentFrame a = Num (of_int i) \<and> 0 \<le> i \<and> sprites a \<noteq> [] \<longrightarrow>
      currentFrame (tick delta a) = Num (of_int i) \<or>
      currentFrame (tick delta a) =
        (if loop a then Num (of_int ((i + 1) mod int (length (sprites a))))
         else Num (of_int (i + 1))))"
proof (intro conjI impI)
  show "currentFrame (tick delta a) = currentFrame a \<or>
    currentFrame (tick delta a) =
      (if loop a then js_rem (js_add (currentFrame a) (Num 1)) (js_length (sprites a))
       else js_add (currentFrame a) (Num 1))"
    by (simp add: currentFrame_tick)
next
  assume h: "currentFrame a = Num (of_int i) \<and> 0 \<le> i \<and> sprites a \<noteq> []"
  then have "js_rem (Num (of_int (i + 1))) (js_length (sprites a)) =
      Num (of_int ((i + 1) mod int (length (sprites a))))"
    by (intro js_rem_length) simp_all
  with h show "currentFrame (tick delta a) = Num (of_int i) \<or>
      currentFrame (tick delta a) =
        (if loop a then Num (of_int ((i + 1) mod int (length (sprites a))))
         else Num (of_int (i + 1)))"
    by (simp add: currentFrame_tick)
qed

theorem tick_at_most_one_frame_witness:
  "currentFrame (new_animation 1700000000000 [a_sprite 1 1, a_sprite 2 2] 100 None) = Num 0 \<and>
   (0::int) \<le> 0 \<and>
   sprites (new_animation 1700000000000 [a_sprite 1 1, a_sprite 2 2] 100 None) \<noteq> [] \<and>
   currentFrame (tick 100000 (new_animation 1700000000000 [a_sprite 1 1, a_sprite 2 2] 100 None))
     = Num 1"
proof -
  have v: "currentFrame (tick 100000
      (new_animation 1700000000000 [a_sprite 1 1, a_sprite 2 2] 100 None)) = Num 1"
    by code_simp
  show ?thesis
    using v tick_at_most_one_frame [of 100000
      "new_animation 1700000000000 [a_sprite 1 1, a_sprite 2 2] 100 None" 0]
    by simp
qed

section \<open>The bounds of the current frame\<close>

text \<open>
  C9: \<open>localBounds\<close> returns the bounds of the sprite at \<open>currentFrame\<close> when that is
  an index of the sprite array, and the box of \<open>new BoundingBox()\<close> otherwise; the latter
  covers an empty array and a non-looping animation that is done.
\<close>

theorem localBounds_total:
  "(currentFrame a = Num (of_int i) \<and> 0 \<le> i \<and> i < int (length (sprites a)) \<longrightarrow>
      localBounds new_bb a = sp_localBounds (sprites a ! nat i)) \<and>
   (\<not> (\<exists>j. currentFrame a = Num (of_int j) \<and> 0 \<le> j \<and> j < int (length (sprites a))) \<longrightarrow>
      localBounds new_bb a = new_bb) \<and>
   (sprites a = [] \<longrightarrow> localBounds new_bb a = new_bb) \<and>
   (isDone a \<longrightarrow> localBounds new_bb a = new_bb)"
proof (intro conjI impI)
  assume "currentFrame a = Num (of_int i) \<and> 0 \<le> i \<and> i < int (length (sprites a))"
  then show "localBounds new_bb a = sp_localBounds (sprites a ! nat i)"
    by (simp add: localBounds_def js_index_def)
next
  assume h: "\<not> (\<exists>j. currentFrame a = Num (of_int j) \<and> 0 \<le> j \<and> j < int (length (sprites a)))"
  have "array_index (sprites a) (currentFrame a) = None"
  proof (cases "currentFrame a")
    case (Num r)
    show ?thesis
    proof (rule ccontr)
      assume "array_index (sprites a) (currentFrame a) \<noteq> None"
      with Num have "r = of_int \<lfloor>r\<rfloor> \<and> 0 \<le> r \<and> r < real (length (sprites a))"
        by (simp split: if_splits)
      then have "currentFrame a = Num (of_int \<lfloor>r\<rfloor>) \<and> 0 \<le> \<lfloor>r\<rfloor> \<and>
          \<lfloor>r\<rfloor> < int (length (sprites a))"
        using Num by (simp add: floor_less_iff)
      with h show False by blast
    qed
  qed simp_all
  then show "localBounds new_bb a = new_bb"
    by (simp add: localBounds_def js_index_def)
next
  assume "sprites a = []"
  then show "localBounds new_bb a = new_bb"
    by (cases "currentFrame a") (simp_all add: localBounds_def js_index_def)
next
  assume "isDone a"
  then show "localBounds new_bb a = new_bb"
    by (cases "currentFrame a")
       (simp_all add: localBounds_def js_index_def isDone_def js_length_def)
qed

theorem localBounds_total_witness:
  "currentFrame (new_animation 5 [a_sprite 1 1, a_sprite 2 3] 100 None) = Num 0 \<and>
   (0::int) \<le> 0 \<and>
   0 < int (length (sprites (new_animation 5 [a_sprite 1 1, a_sprite 2 3] 100 None))) \<and>
   sprites (new_animation 5 [] 100 None) = [] \<and>
   isDone (run [Tick 100, Tick 100] two_frames) \<and>
   currentFrame (run [Skip (Num (-1))] two_frames) = Num (-1) \<and>
   localBounds \<lparr> left = 0, top = 0, right = 0, bottom = 0 \<rparr>
       (new_animation 5 [a_sprite 1 1, a_sprite 2 3] 100 None)
     = sp_localBounds (sprites (new_animation 5 [a_sprite 1 1, a_sprite 2 3] 100 None) ! nat 0) \<and>
   localBounds \<lparr> left = 0, top = 0, right = 0, bottom = 0 \<rparr> (new_animation 5 [] 100 None)
     = \<lparr> left = 0, top = 0, right = 0, bottom = 0 \<rparr> \<and>
   localBounds \<lparr> left = 0, top = 0, right = 0, bottom = 0 \<rparr> (run [Tick 100, Tick 100] two_frames)
     = \<lparr> left = 0, top = 0, right = 0, bottom = 0 \<rparr> \<and>
   localBounds \<lparr> left = 0, top = 0, right = 0, bottom = 0 \<rparr> (run [Skip (Num (-1))] two_frames)
     = \<lparr> left = 0, top = 0, right = 0, bottom = 0 \<rparr>"
proof -
  have neg: "currentFrame (run [Skip (Num (-1))] two_frames) = Num (-1)"
    by code_simp
  have h: "currentFrame (new_animation 5 [a_sprite 1 1, a_sprite 2 3] 100 None) = Num (of_int 0) \<and>
     (0::int) \<le> 0 \<and>
     0 < int (length (sprites (new_animation 5 [a_sprite 1 1, a_sprite 2 3] 100 None))) \<and>
     sprites (new_animation 5 [] 100 None) = [] \<and>
     isDone (run [Tick 100, Tick 100] two_frames)"
    by code_simp
  have out: "\<not> (\<exists>j. currentFrame (run [Skip (Num (-1))] two_frames) = Num (of_int j) \<and> 0 \<le> j \<and>
        j < int (length (sprites (run [Skip (Num (-1))] two_frames))))"
  proof
    assume "\<exists>j. currentFrame (run [Skip (Num (-1))] two_frames) = Num (of_int j) \<and> 0 \<le> j \<and>
        j < int (length (sprites (run [Skip (Num (-1))] two_frames)))"
    then obtain j where "Num (-1) = Num (real_of_int j)" "0 \<le> j" using neg by auto
    then have "real_of_int j = -1" "0 \<le> real_of_int j" by simp_all
    then show False by linarith
  qed
  from neg h out
    localBounds_total [of "new_animation 5 [a_sprite 1 1, a_sprite 2 3] 100 None" 0
      "\<lparr> left = 0, top = 0, right = 0, bottom = 0 \<rparr>"]
    localBounds_total [of "new_animation 5 [] 100 None" 0
      "\<lparr> left = 0, top = 0, right = 0, bottom = 0 \<rparr>"]
    localBounds_total [of "run [Tick 100, Tick 100] two_frames" 0
      "\<lparr> left = 0, top = 0, right = 0, bottom = 0 \<rparr>"]
    localBounds_total [of "run [Skip (Num (-1))] two_frames" 0
      "\<lparr> left = 0, top = 0, right = 0, bottom = 0 \<rparr>"]
  show ?thesis by simp
qed

section \<open>What the operations keep\<close>

lemmas draw_defs = draw_def draw_freeze_def draw_finish_def sprite_draw_def set_flips_def
  updateValues_def setScale_def setRotation_def setAnchor_def Let_def

lemma draw_keeps:
  "currentFrame (state_after (draw x y a)) = currentFrame a"
  "loop (state_after (draw x y a)) = loop a"
  "freezeFrame (state_after (draw x y a)) = freezeFrame a"
  "resolveDonePlaying (state_after (draw x y a)) = resolveDonePlaying a"
  "promisesCreated (state_after (draw x y a)) = promisesCreated a"
  "length (sprites (state_after (draw x y a))) = length (sprites a)"
  by (simp_all add: draw_defs split: option.splits)

lemma draw_resolveCalls:
  "resolveCalls (state_after (draw x y a)) = resolveCalls a \<or>
   (\<exists>p. resolveDonePlaying a = Some p \<and>
        resolveCalls (state_after (draw x y a)) = p # resolveCalls a)"
  by (simp add: draw_defs split: option.splits)

lemma exec_loop [simp]: "loop (exec c a) = loop a"
  by (cases c) (simp_all add: tick_def skip_def reset_def play_def draw_keeps Let_def)

lemma exec_length_sprites [simp]: "length (sprites (exec c a)) = length (sprites a)"
  by (cases c) (simp_all add: tick_def skip_def reset_def play_def draw_keeps Let_def)

lemma exec_freezeFrame [simp]: "freezeFrame (exec c a) = freezeFrame a"
  by (cases c) (simp_all add: tick_def skip_def reset_def play_def draw_keeps Let_def)

lemma run_loop [simp]: "loop (run cs a) = loop a"
  by (induction cs arbitrary: a) simp_all

lemma run_length_sprites [simp]: "length (sprites (run cs a)) = length (sprites a)"
  by (induction cs arbitrary: a) simp_all

lemma run_freezeFrame [simp]: "freezeFrame (run cs a) = freezeFrame a"
  by (induction cs arbitrary: a) simp_all

lemma exec_sprites_empty: "sprites a = [] \<Longrightarrow> sprites (exec c a) = []"
  using exec_length_sprites [of c a] by (metis length_0_conv)

lemma run_sprites_empty: "sprites a = [] \<Longrightarrow> sprites (run cs a) = []"
  using run_length_sprites [of cs a] by (metis length_0_conv)

lemma exec_sprites_nonempty: "sprites a \<noteq> [] \<Longrightarrow> sprites (exec c a) \<noteq> []"
  using exec_length_sprites [of c a] by (metis length_0_conv)

section \<open>The range of the frame index\<close>

text \<open>Each of the three properties of the frame is kept by a call, under the matching
  condition on the argument of \<open>skip\<close>.\<close>

lemma exec_frame_below:
  assumes "sprites a \<noteq> []" "loop a" "frame_below a" "finite_skip c"
  shows "frame_below (exec c a)"
proof -
  obtain r where r: "currentFrame a = Num r" "r < real (length (sprites a))"
    using assms(3) by (cases "currentFrame a") (simp_all add: frame_below_def)
  show ?thesis
  proof (cases c)
    case (Tick d)
    obtain r' where "js_rem (Num (r + 1)) (js_length (sprites a)) = Num r'"
      "r' < real (length (sprites a))"
      using js_rem_bounds [OF assms(1), of "r + 1"] by blast
    with Tick r assms(2) show ?thesis
      by (simp add: frame_below_def tick_def Let_def)
  next
    case (Skip n)
    then obtain k where k: "n = Num k"
      using assms(4) by (cases n) simp_all
    obtain r' where "js_rem (Num (r + k)) (js_length (sprites a)) = Num r'"
      "r' < real (length (sprites a))"
      using js_rem_bounds [OF assms(1), of "r + k"] by blast
    with Skip k r show ?thesis
      by (simp add: frame_below_def skip_def)
  next
    case Reset
    with assms(1) show ?thesis by (simp add: frame_below_def reset_def)
  next
    case (Draw x y)
    with r show ?thesis by (simp add: frame_below_def draw_keeps)
  next
    case (Play x y)
    with assms(1) show ?thesis by (simp add: frame_below_def play_def reset_def Let_def)
  qed
qed

lemma run_frame_below:
  "sprites a \<noteq> [] \<Longrightarrow> loop a \<Longrightarrow> frame_below a \<Longrightarrow> list_all finite_skip cs \<Longrightarrow>
     frame_below (run cs a)"
proof (induction cs arbitrary: a)
  case Nil
  then show ?case by simp
next
  case (Cons c cs)
  then show ?case using exec_sprites_nonempty exec_frame_below by simp
qed

lemma exec_frame_nonneg:
  assumes "sprites a \<noteq> []" "frame_nonneg a" "nonneg_skip c"
  shows "frame_nonneg (exec c a)"
proof -
  obtain r where r: "currentFrame a = Num r" "0 \<le> r"
    using assms(2) by (cases "currentFrame a") (simp_all add: frame_nonneg_def)
  show ?thesis
  proof (cases c)
    case (Tick d)
    obtain r' where "js_rem (Num (r + 1)) (js_length (sprites a)) = Num r'" "0 \<le> r'"
      using js_rem_bounds [OF assms(1), of "r + 1"] r(2) by auto
    with Tick r show ?thesis
      by (simp add: frame_nonneg_def tick_def Let_def)
  next
    case (Skip n)
    then obtain k where k: "n = Num k" "0 \<le> k"
      using assms(3) by (cases n) simp_all
    obtain r' where "js_rem (Num (r + k)) (js_length (sprites a)) = Num r'" "0 \<le> r'"
      using js_rem_bounds [OF assms(1), of "r + k"] r(2) k(2) by auto
    with Skip k r show ?thesis
      by (simp add: frame_nonneg_def skip_def)
  next
    case Reset
    then show ?thesis by (simp add: frame_nonneg_def reset_def)
  next
    case (Draw x y)
    with r show ?thesis by (simp add: frame_nonneg_def draw_keeps)
  next
    case (Play x y)
    then show ?thesis by (simp add: frame_nonneg_def play_def reset_def Let_def)
  qed
qed

lemma run_frame_nonneg:
  "sprites a \<noteq> [] \<Longrightarrow> frame_nonneg a \<Longrightarrow> list_all nonneg_skip cs \<Longrightarrow>
     frame_nonneg (run cs a)"
proof (induction cs arbitrary: a)
  case Nil
  then show ?case by simp
next
  case (Cons c cs)
  then show ?case using exec_sprites_nonempty exec_frame_nonneg by simp
qed

lemma frame_whole_iff:
  "frame_whole a \<longleftrightarrow> (\<exists>i. currentFrame a = Num (of_int i) \<and> 0 \<le> i)"
proof
  assume "frame_whole a"
  then obtain r where "currentFrame a = Num r" "0 \<le> r" "r = of_int \<lfloor>r\<rfloor>"
    by (cases "currentFrame a") (simp_all add: frame_whole_def)
  then have "currentFrame a = Num (of_int \<lfloor>r\<rfloor>) \<and> 0 \<le> \<lfloor>r\<rfloor>" by simp
  then show "\<exists>i. currentFrame a = Num (of_int i) \<and> 0 \<le> i" by blast
next
  assume "\<exists>i. currentFrame a = Num (of_int i) \<and> 0 \<le> i"
  then show "frame_whole a" by (auto simp add: frame_whole_def)
qed

lemma exec_frame_whole:
  assumes "sprites a \<noteq> []" "frame_whole a" "whole_skip c"
  shows "frame_whole (exec c a)"
proof -
  obtain i where i: "currentFrame a = Num (of_int i)" "0 \<le> i"
    using assms(2) by (auto simp add: frame_whole_iff)
  show ?thesis
  proof (cases c)
    case (Tick d)
    have "js_rem (Num (of_int (i + 1))) (js_length (sprites a)) =
        Num (of_int ((i + 1) mod int (length (sprites a))))"
      using i(2) assms(1) by (intro js_rem_length) simp_all
    moreover have "0 \<le> (i + 1) mod int (length (sprites a))" "0 \<le> i + 1"
      using assms(1) i(2) by simp_all
    ultimately have "frame_whole (tick d a)"
      unfolding frame_whole_iff using i
      by (cases "loop a"; cases "speed a \<le> elapsedTime a")
         (auto simp add: tick_def Let_def intro: exI [of _ i] exI [of _ "i + 1"]
            exI [of _ "(i + 1) mod int (length (sprites a))"])
    with Tick show ?thesis by simp
  next
    case (Skip n)
    then obtain k where k: "n = Num k" "0 \<le> k" "k = of_int \<lfloor>k\<rfloor>"
      using assms(3) by (cases n) simp_all
    have s: "Num (of_int i + k) = Num (of_int (i + \<lfloor>k\<rfloor>))"
      using k(3) by simp
    have nn: "0 \<le> i + \<lfloor>k\<rfloor>" using i(2) k(2) by simp
    have "js_rem (Num (of_int (i + \<lfloor>k\<rfloor>))) (js_length (sprites a)) =
        Num (of_int ((i + \<lfloor>k\<rfloor>) mod int (length (sprites a))))"
      using nn assms(1) by (rule js_rem_length)
    moreover have "0 \<le> (i + \<lfloor>k\<rfloor>) mod int (length (sprites a))"
      using assms(1) by simp
    ultimately have "frame_whole (skip n a)"
      unfolding frame_whole_iff using i(1) k(1) s
      by (auto simp add: skip_def intro: exI [of _ "(i + \<lfloor>k\<rfloor>) mod int (length (sprites a))"])
    with Skip show ?thesis by simp
  next
    case Reset
    then show ?thesis by (simp add: frame_whole_def reset_def)
  next
    case (Draw x y)
    with assms(2) show ?thesis by (simp add: frame_whole_def draw_keeps)
  next
    case (Play x y)
    then show ?thesis by (simp add: frame_whole_def play_def reset_def Let_def)
  qed
qed

lemma run_frame_whole:
  "sprites a \<noteq> [] \<Longrightarrow> frame_whole a \<Longrightarrow> list_all whole_skip cs \<Longrightarrow>
     frame_whole (run cs a)"
proof (induction cs arbitrary: a)
  case Nil
  then show ?case by simp
next
  case (Cons c cs)
  then show ?case using exec_sprites_nonempty exec_frame_whole by simp
qed

text \<open>
  C4, as the claim states it, fails in each of its three parts. \<open>skip(-1)\<close> on a fresh
  animation of two frames leaves the frame at -1, and a tick of a fresh looping animation
  without frames leaves \<open>NaN\<close>, which is not \<open>\<ge> 0\<close>. \<open>skip(Infinity)\<close> on a fresh
  looping animation of two frames leaves \<open>NaN\<close>, which is not below the length. The
  non-looping animation of two frames reaches frame 3 after three ticks, past its length,
  and \<open>reset\<close> and \<open>skip(1)\<close> then both put it back to 0.
\<close>

theorem frame_index_counterexample:
  "currentFrame (run [Skip (Num (-1))] two_frames) = Num (-1) \<and>
   js_lt (currentFrame (run [Skip (Num (-1))] two_frames)) (Num 0) \<and>
   currentFrame (run [Tick 100] (new_animation 1700000000000 [] 100 None)) = NaN \<and>
   \<not> js_ge (currentFrame (run [Tick 100] (new_animation 1700000000000 [] 100 None))) (Num 0) \<and>
   loop two_frames_looping \<and> sprites two_frames_looping \<noteq> [] \<and>
   currentFrame (run [Skip PosInf] two_frames_looping) = NaN \<and>
   \<not> js_lt (currentFrame (run [Skip PosInf] two_frames_looping))
       (js_length (sprites (run [Skip PosInf] two_frames_looping))) \<and>
   \<not> loop two_frames \<and>
   currentFrame (run [Tick 100, Tick 100, Tick 100] two_frames) = Num 3 \<and>
   js_ge (currentFrame (run [Tick 100, Tick 100, Tick 100] two_frames))
     (js_length (sprites (run [Tick 100, Tick 100, Tick 100] two_frames))) \<and>
   currentFrame (run [Tick 100, Tick 100, Tick 100, Reset] two_frames) = Num 0 \<and>
   currentFrame (run [Tick 100, Tick 100, Tick 100, Skip (Num 1)] two_frames) = Num 0"
  by code_simp

text \<open>
  C4, amended: for every animation with a non-empty frame sequence and every sequence of
  the calls tick, skip, reset, draw and play, the frame is a number \<open>\<ge> 0\<close> as long as
  every skip is given a finite number that is not negative, and a whole number \<open>\<ge> 0\<close>
  as long as every skip is given a whole number that is not negative; when the animation
  loops, the frame stays strictly below the length of the sequence as long as every skip
  is given a finite number, negative or fractional ones included. In a non-looping
  animation neither tick nor draw ever decreases the frame, so once it is done it is still
  done after them. \<open>reset\<close> and \<open>play\<close> set the frame to 0 and \<open>skip\<close> sets it to the
  remainder of the frame plus its argument by the length of the sequence, so after any of
  the three an animation with frames is not done.
\<close>

theorem frame_index_invariants:
  "(sps \<noteq> [] \<and> list_all nonneg_skip cs \<longrightarrow>
      (\<exists>r. currentFrame (run cs (new_animation now sps spd lp)) = Num r \<and> 0 \<le> r)) \<and>
   (sps \<noteq> [] \<and> list_all whole_skip cs \<longrightarrow>
      (\<exists>i. currentFrame (run cs (new_animation now sps spd lp)) = Num (of_int i) \<and> 0 \<le> i)) \<and>
   (sps \<noteq> [] \<and> lp \<noteq> Some False \<and> list_all finite_skip cs \<longrightarrow>
      (\<exists>r. currentFrame (run cs (new_animation now sps spd lp)) = Num r \<and>
           r < real (length sps))) \<and>
   (\<not> loop a \<longrightarrow>
      \<not> js_lt (currentFrame (tick delta a)) (currentFrame a) \<and>
      currentFrame (exec (Draw x y) a) = currentFrame a \<and>
      (isDone a \<longrightarrow> isDone (tick delta a) \<and> isDone (exec (Draw x y) a))) \<and>
   currentFrame (reset a) = Num 0 \<and>
   currentFrame (snd (play x y a)) = Num 0 \<and>
   currentFrame (skip n a) = js_rem (js_add (currentFrame a) n) (js_length (sprites a)) \<and>
   (sprites a \<noteq> [] \<longrightarrow>
      \<not> isDone (reset a) \<and> \<not> isDone (snd (play x y a)) \<and> \<not> isDone (skip n a))"
proof (intro conjI impI)
  assume h: "sps \<noteq> [] \<and> list_all nonneg_skip cs"
  have "frame_nonneg (run cs (new_animation now sps spd lp))"
    using h by (intro run_frame_nonneg) (simp_all add: frame_nonneg_def)
  then show "\<exists>r. currentFrame (run cs (new_animation now sps spd lp)) = Num r \<and> 0 \<le> r"
    by (simp add: frame_nonneg_def split: jsnum.splits)
next
  assume h: "sps \<noteq> [] \<and> list_all whole_skip cs"
  have "frame_whole (run cs (new_animation now sps spd lp))"
    using h by (intro run_frame_whole) (simp_all add: frame_whole_def)
  then show "\<exists>i. currentFrame (run cs (new_animation now sps spd lp)) = Num (of_int i) \<and> 0 \<le> i"
    by (simp add: frame_whole_iff)
next
  assume h: "sps \<noteq> [] \<and> lp \<noteq> Some False \<and> list_all finite_skip cs"
  have l: "loop (new_animation now sps spd lp)"
    using h by (cases lp) simp_all
  have "frame_below (run cs (new_animation now sps spd lp))"
    using h l by (intro run_frame_below) (simp_all add: frame_below_def)
  then show "\<exists>r. currentFrame (run cs (new_animation now sps spd lp)) = Num r \<and>
      r < real (length sps)"
    by (simp add: frame_below_def split: jsnum.splits)
next
  show "\<not> js_lt (currentFrame (tick delta a)) (currentFrame a)" if "\<not> loop a"
    using that js_add_one_not_lt [of "currentFrame a"]
    by (cases "currentFrame a") (simp_all add: tick_def Let_def)
next
  show "currentFrame (exec (Draw x y) a) = currentFrame a"
    by (simp add: draw_keeps)
next
  assume "\<not> loop a" "isDone a"
  then show "isDone (tick delta a)"
    using js_add_one_ge [of "currentFrame a" "js_length (sprites a)"]
    by (simp add: isDone_def tick_def Let_def)
next
  assume "isDone a"
  then show "isDone (exec (Draw x y) a)"
    by (simp add: isDone_def draw_keeps js_length_def)
next
  show "currentFrame (reset a) = Num 0"
    by (simp add: reset_def)
  show "currentFrame (snd (play x y a)) = Num 0"
    by (simp add: play_def reset_def Let_def)
  show "currentFrame (skip n a) = js_rem (js_add (currentFrame a) n) (js_length (sprites a))"
    by (simp add: skip_def)
next
  assume ne: "sprites a \<noteq> []"
  then show "\<not> isDone (reset a)"
    by (simp add: isDone_def reset_def js_length_def)
  from ne show "\<not> isDone (snd (play x y a))"
    by (simp add: isDone_def play_def reset_def js_length_def Let_def)
  from ne show "\<not> isDone (skip n a)"
    using js_rem_below [of "sprites a" "js_add (currentFrame a) n"]
    by (simp add: isDone_def skip_def)
qed

theorem frame_index_invariants_witness:
  "[a_sprite 1 1, a_sprite 2 2] \<noteq> [] \<and>
   list_all nonneg_skip [Tick 100, Skip (Num 3), Draw 0 0, Play 1 1, Tick 100, Reset, Skip (Num 5)] \<and>
   list_all whole_skip [Tick 100, Skip (Num 3), Draw 0 0, Play 1 1, Tick 100, Reset, Skip (Num 5)] \<and>
   list_all finite_skip [Tick 100, Skip (Num 3), Draw 0 0, Play 1 1, Tick 100, Reset, Skip (Num 5)] \<and>
   (None :: bool option) \<noteq> Some False \<and>
   \<not> loop (run [Tick 100, Tick 100] two_frames) \<and>
   isDone (run [Tick 100, Tick 100] two_frames) \<and>
   sprites (run [Tick 100, Tick 100] two_frames) \<noteq> [] \<and>
   (\<exists>i. currentFrame
           (run [Tick 100, Skip (Num 3), Draw 0 0, Play 1 1, Tick 100, Reset, Skip (Num 5)]
              (new_animation 1700000000000 [a_sprite 1 1, a_sprite 2 2] 100 None))
         = Num (of_int i) \<and> 0 \<le> i) \<and>
   (\<exists>r. currentFrame
           (run [Tick 100, Skip (Num 3), Draw 0 0, Play 1 1, Tick 100, Reset, Skip (Num 5)]
              (new_animation 1700000000000 [a_sprite 1 1, a_sprite 2 2] 100 None))
         = Num r \<and> r < 2) \<and>
   isDone (tick 16 (run [Tick 100, Tick 100] two_frames)) \<and>
   isDone (exec (Draw 0 0) (run [Tick 100, Tick 100] two_frames)) \<and>
   \<not> isDone (reset (run [Tick 100, Tick 100] two_frames)) \<and>
   \<not> isDone (skip (Num 1) (run [Tick 100, Tick 100] two_frames))"
proof -
  have h: "[a_sprite 1 1, a_sprite 2 2] \<noteq> [] \<and>
     list_all nonneg_skip [Tick 100, Skip (Num 3), Draw 0 0, Play 1 1, Tick 100, Reset, Skip (Num 5)] \<and>
     list_all whole_skip [Tick 100, Skip (Num 3), Draw 0 0, Play 1 1, Tick 100, Reset, Skip (Num 5)] \<and>
     list_all finite_skip [Tick 100, Skip (Num 3), Draw 0 0, Play 1 1, Tick 100, Reset, Skip (Num 5)] \<and>
     (None :: bool option) \<noteq> Some False \<and>
     \<not> loop (run [Tick 100, Tick 100] two_frames) \<and>
     isDone (run [Tick 100, Tick 100] two_frames) \<and>
     sprites (run [Tick 100, Tick 100] two_frames) \<noteq> []"
    by code_simp
  with frame_index_invariants [of "[a_sprite 1 1, a_sprite 2 2]"
      "[Tick 100, Skip (Num 3), Draw 0 0, Play 1 1, Tick 100, Reset, Skip (Num 5)]"
      1700000000000 100 None "run [Tick 100, Tick 100] two_frames" 16 0 0 "Num 1"]
  show ?thesis by fastforce
qed

section \<open>An animation without frames\<close>

lemma exec_not_negative:
  "sprites a = [] \<Longrightarrow> \<not> js_lt (currentFrame a) (Num 0) \<Longrightarrow>
     \<not> js_lt (currentFrame (exec c a)) (Num 0)"
  by (cases c; cases "currentFrame a")
     (simp_all add: tick_def skip_def reset_def play_def draw_keeps Let_def js_length_def)

lemma run_not_negative:
  "sprites a = [] \<Longrightarrow> \<not> js_lt (currentFrame a) (Num 0) \<Longrightarrow>
     \<not> js_lt (currentFrame (run cs a)) (Num 0)"
proof (induction cs arbitrary: a)
  case Nil
  then show ?case by simp
next
  case (Cons c cs)
  then show ?case using exec_sprites_empty exec_not_negative by simp
qed

lemma freezeFrame_new_empty: "freezeFrame (new_animation now [] spd lp) = -1"
  by (simp add: new_animation_def)

lemma draw_empty:
  "sprites a = [] \<Longrightarrow> freezeFrame a = -1 \<Longrightarrow> \<not> js_lt (currentFrame a) (Num 0) \<Longrightarrow>
     \<exists>a'. draw x y a = Returns a' \<and> painted a' = painted a"
  by (simp add: draw_defs js_length_def split: option.splits)

text \<open>
  C5, as the claim states it, fails: the remainder by the length is not guarded. On a fresh
  animation without frames, whose frame is 0, \<open>skip(1)\<close> leaves \<open>NaN\<close>, and so does a
  tick.
\<close>

theorem empty_sequence_counterexample:
  "currentFrame (new_animation 1700000000000 [] 100 None) = Num 0 \<and>
   currentFrame (skip (Num 1) (new_animation 1700000000000 [] 100 None)) = NaN \<and>
   currentFrame (tick 16 (new_animation 1700000000000 [] 100 None)) = NaN"
  by (simp add: skip_def tick_def new_animation_def js_length_def)

text \<open>
  C5, amended: for an animation whose frame sequence is empty, \<open>skip\<close> sets the frame to
  \<open>NaN\<close>; a tick that finds the accumulator at or above the frame duration sets it to
  \<open>NaN\<close> when the animation loops and adds one when it does not, and any other tick
  leaves it unchanged; \<open>draw\<close> returns without painting a frame whenever the freeze frame
  is -1 and the frame is not negative, which holds after every sequence of calls on an
  animation that was constructed without frames.
\<close>

theorem empty_sequence_behaviour:
  "sprites a = [] \<Longrightarrow>
     currentFrame (skip n a) = NaN \<and>
     currentFrame (tick delta a) =
       (if elapsedTime a \<ge> speed a
        then (if loop a then NaN else js_add (currentFrame a) (Num 1))
        else currentFrame a) \<and>
     (freezeFrame a = -1 \<and> \<not> js_lt (currentFrame a) (Num 0) \<longrightarrow>
        (\<exists>a'. draw x y a = Returns a' \<and> painted a' = painted a)) \<and>
     (\<exists>a'. draw x y (run cs (new_animation now [] spd lp)) = Returns a' \<and>
           painted a' = painted (run cs (new_animation now [] spd lp)))"
proof (intro conjI impI)
  assume e: "sprites a = []"
  show "currentFrame (skip n a) = NaN"
    using e by (simp add: skip_def js_length_def)
  show "currentFrame (tick delta a) =
       (if elapsedTime a \<ge> speed a
        then (if loop a then NaN else js_add (currentFrame a) (Num 1))
        else currentFrame a)"
    using e by (simp add: currentFrame_tick js_length_def)
  show "\<exists>a'. draw x y a = Returns a' \<and> painted a' = painted a"
    if "freezeFrame a = -1 \<and> \<not> js_lt (currentFrame a) (Num 0)"
    using e that by (intro draw_empty) simp_all
  show "\<exists>a'. draw x y (run cs (new_animation now [] spd lp)) = Returns a' \<and>
           painted a' = painted (run cs (new_animation now [] spd lp))"
    by (intro draw_empty run_not_negative) (simp_all add: run_sprites_empty freezeFrame_new_empty)
qed

theorem empty_sequence_behaviour_witness:
  "sprites (new_animation 1700000000000 [] 100 None) = [] \<and>
   freezeFrame (new_animation 1700000000000 [] 100 None) = -1 \<and>
   \<not> js_lt (currentFrame (new_animation 1700000000000 [] 100 None)) (Num 0) \<and>
   currentFrame (skip (Num 2) (new_animation 1700000000000 [] 100 None)) = NaN \<and>
   currentFrame (tick 16 (new_animation 1700000000000 [] 100 None)) = NaN \<and>
   (\<exists>a'. draw 3 4 (new_animation 1700000000000 [] 100 None) = Returns a' \<and> painted a' = [])"
  using empty_sequence_behaviour [of "new_animation 1700000000000 [] 100 None" "Num 2" 16 3 4 "[]" 0 0 None]
  by (simp add: freezeFrame_new_empty new_animation_def)

section \<open>The promise of play\<close>

lemma exec_resolveCalls_other: "\<not> is_draw c \<Longrightarrow> resolveCalls (exec c a) = resolveCalls a"
  by (cases c) (simp_all add: tick_def skip_def reset_def play_def Let_def)

lemma exec_promisesCreated_mono: "promisesCreated a \<le> promisesCreated (exec c a)"
  by (cases c) (simp_all add: tick_def skip_def reset_def play_def draw_keeps Let_def)

lemma run_promisesCreated_mono: "promisesCreated a \<le> promisesCreated (run cs a)"
proof (induction cs arbitrary: a)
  case Nil
  then show ?case by simp
next
  case (Cons c cs)
  then show ?case using exec_promisesCreated_mono [of a c] order_trans by fastforce
qed

lemma exec_superseded: "superseded p a \<Longrightarrow> superseded p (exec c a)"
proof (cases c)
  case (Draw x y)
  assume s: "superseded p a"
  show ?thesis
    using s draw_resolveCalls [of x y a] Draw
    by (auto simp add: superseded_def resolved_def draw_keeps)
next
  case (Play x y)
  assume "superseded p a"
  with Play show ?thesis
    by (auto simp add: superseded_def resolved_def play_def reset_def Let_def)
qed (simp_all add: superseded_def resolved_def tick_def skip_def reset_def Let_def)

lemma run_superseded: "superseded p a \<Longrightarrow> superseded p (run cs a)"
  by (induction cs arbitrary: a) (simp_all add: exec_superseded)

lemma exec_resolved_mono: "resolved p a \<Longrightarrow> resolved p (exec c a)"
proof (cases c)
  case (Draw x y)
  assume "resolved p a"
  then show ?thesis
    using draw_resolveCalls [of x y a] Draw by (auto simp add: resolved_def)
qed (simp_all add: resolved_def tick_def skip_def reset_def play_def Let_def)

lemma exec_waiter_kept: "\<not> is_play c \<Longrightarrow> resolveDonePlaying (exec c a) = resolveDonePlaying a"
  by (cases c) (simp_all add: tick_def skip_def reset_def draw_keeps Let_def)

lemma draw_done_resolves:
  assumes "isDone a" "resolveDonePlaying a = Some p" "freezeFrame a = -1 \<or> sprites a \<noteq> []"
  shows "\<exists>a'. draw x y a = Returns a' \<and> resolved p a'"
proof -
  have ge: "js_ge (currentFrame a) (js_length (sprites a))"
    using assms(1) by (simp add: isDone_def)
  then have nlt: "\<not> js_lt (currentFrame a) (js_length (sprites a))"
    by (rule js_ge_not_lt)
  show ?thesis
  proof (cases "freezeFrame a = -1")
    case True
    with nlt assms(2) show ?thesis
      by (simp add: draw_defs resolved_def)
  next
    case False
    with assms(3) have n: "0 < int (length (sprites a))" by simp
    have "0 \<le> clamp (freezeFrame a) 0 (int (length (sprites a)) - 1)"
      "clamp (freezeFrame a) 0 (int (length (sprites a)) - 1) < int (length (sprites a))"
      using n by (simp_all add: clamp_def)
    then have "array_index (sprites a)
        (Num (of_int (clamp (freezeFrame a) 0 (int (length (sprites a)) - 1)))) =
        Some (nat (clamp (freezeFrame a) 0 (int (length (sprites a)) - 1)))"
      by simp
    with ge nlt assms(2) False show ?thesis
      by (simp add: draw_defs resolved_def)
  qed
qed

text \<open>
  C1: the future of \<open>play\<close> is to resolve only in a \<open>draw\<close> in which the animation is
  done, and \<open>draw\<close> is to clear the waiter when it resolves it. The code does neither.
  After \<open>play\<close> on the fresh non-looping animation of two frames the animation is not
  done, its promise 0 is stored and not resolved; the next \<open>draw\<close> returns with promise 0
  resolved although the animation is still not done, and the resolve function of promise 0
  is still stored afterwards. The condition in \<open>draw\<close> names the method \<open>isDone\<close>
  without calling it, so it does not test what \<open>isDone()\<close> returns.
\<close>

theorem draw_resolves_before_done:
  "\<not> isDone (run [Play 0 0] two_frames) \<and>
   resolveDonePlaying (run [Play 0 0] two_frames) = Some 0 \<and>
   \<not> resolved 0 (run [Play 0 0] two_frames) \<and>
   draw 0 0 (run [Play 0 0] two_frames) = Returns (run [Play 0 0, Draw 0 0] two_frames) \<and>
   \<not> isDone (run [Play 0 0, Draw 0 0] two_frames) \<and>
   resolved 0 (run [Play 0 0, Draw 0 0] two_frames) \<and>
   resolveDonePlaying (run [Play 0 0, Draw 0 0] two_frames) = Some 0"
  by code_simp

text \<open>
  The life of a promise apart from that test. No call other than \<open>draw\<close> resolves a
  promise, and no call other than \<open>play\<close> changes the stored resolve function; a
  \<open>draw\<close> calls no resolve function other than the stored one; a \<open>draw\<close> of an
  animation that is done, with a resolve function stored, returns with that promise
  resolved (provided there is a sprite to paint or no freeze frame); a resolved promise
  stays resolved; and if \<open>play\<close> is called again while the promise of an earlier
  \<open>play\<close> is not resolved, the new promise is another one, its resolve function is the
  stored one, and the earlier promise is never resolved, whatever calls follow.
\<close>

theorem promise_lifecycle:
  "(\<not> is_draw c \<longrightarrow> resolveCalls (exec c a) = resolveCalls a) \<and>
   (\<not> is_play c \<longrightarrow> resolveDonePlaying (exec c a) = resolveDonePlaying a) \<and>
   (resolveCalls (exec (Draw x y) a) = resolveCalls a \<or>
    (\<exists>p. resolveDonePlaying a = Some p \<and>
         resolveCalls (exec (Draw x y) a) = p # resolveCalls a)) \<and>
   (isDone a \<and> resolveDonePlaying a = Some p \<and> (freezeFrame a = -1 \<or> sprites a \<noteq> []) \<longrightarrow>
      (\<exists>a'. draw x y a = Returns a' \<and> resolved p a')) \<and>
   (resolved p a \<longrightarrow> resolved p (exec c a)) \<and>
   (\<not> resolved (fst (play x1 y1 a)) (run cs1 (snd (play x1 y1 a))) \<longrightarrow>
      fst (play x2 y2 (run cs1 (snd (play x1 y1 a)))) \<noteq> fst (play x1 y1 a) \<and>
      resolveDonePlaying (snd (play x2 y2 (run cs1 (snd (play x1 y1 a))))) =
        Some (fst (play x2 y2 (run cs1 (snd (play x1 y1 a))))) \<and>
      \<not> resolved (fst (play x1 y1 a))
          (run cs2 (snd (play x2 y2 (run cs1 (snd (play x1 y1 a)))))))"
proof (intro conjI impI)
  show "resolveCalls (exec c a) = resolveCalls a" if "\<not> is_draw c"
    using that by (rule exec_resolveCalls_other)
  show "resolveDonePlaying (exec c a) = resolveDonePlaying a" if "\<not> is_play c"
    using that by (rule exec_waiter_kept)
  show "resolveCalls (exec (Draw x y) a) = resolveCalls a \<or>
    (\<exists>p. resolveDonePlaying a = Some p \<and>
         resolveCalls (exec (Draw x y) a) = p # resolveCalls a)"
    using draw_resolveCalls [of x y a] by simp
  show "\<exists>a'. draw x y a = Returns a' \<and> resolved p a'"
    if "isDone a \<and> resolveDonePlaying a = Some p \<and> (freezeFrame a = -1 \<or> sprites a \<noteq> [])"
    using that by (intro draw_done_resolves) simp_all
  show "resolved p (exec c a)" if "resolved p a"
    using that by (rule exec_resolved_mono)
next
  let ?p1 = "fst (play x1 y1 a)"
  let ?b = "run cs1 (snd (play x1 y1 a))"
  assume nr: "\<not> resolved ?p1 ?b"
  have "promisesCreated (snd (play x1 y1 a)) = ?p1 + 1"
    by (simp add: play_def reset_def Let_def)
  then have lt: "?p1 < promisesCreated ?b"
    using run_promisesCreated_mono [of "snd (play x1 y1 a)" cs1] by simp
  have p2: "fst (play x2 y2 ?b) = promisesCreated ?b"
    by (simp add: play_def reset_def Let_def)
  show "fst (play x2 y2 ?b) \<noteq> ?p1"
    using lt p2 by simp
  show "resolveDonePlaying (snd (play x2 y2 ?b)) = Some (fst (play x2 y2 ?b))"
    by (simp add: play_def reset_def Let_def)
  have "superseded ?p1 (snd (play x2 y2 ?b))"
    using nr lt by (simp add: superseded_def resolved_def play_def reset_def Let_def)
  then have "superseded ?p1 (run cs2 (snd (play x2 y2 ?b)))"
    by (rule run_superseded)
  then show "\<not> resolved ?p1 (run cs2 (snd (play x2 y2 ?b)))"
    by (simp add: superseded_def)
qed

theorem promise_lifecycle_instance:
  "\<not> is_draw (Tick 16) \<and> \<not> is_play (Tick 16) \<and>
   isDone played_out \<and> resolveDonePlaying played_out = Some 0 \<and> sprites played_out \<noteq> [] \<and>
   resolved 0 played_out \<and>
   \<not> resolved (fst (play 1 1 played_out)) (run [Tick 16] (snd (play 1 1 played_out))) \<and>
   resolveCalls (exec (Tick 16) played_out) = resolveCalls played_out \<and>
   resolveDonePlaying (exec (Tick 16) played_out) = resolveDonePlaying played_out \<and>
   (\<exists>a'. draw 6 6 played_out = Returns a' \<and> resolved 0 a') \<and>
   resolved 0 (exec (Tick 16) played_out) \<and>
   \<not> resolved (fst (play 1 1 played_out))
       (run [Tick 100, Tick 100, Draw 7 7]
          (snd (play 2 2 (run [Tick 16] (snd (play 1 1 played_out))))))"
proof -
  have h: "\<not> is_draw (Tick 16) \<and> \<not> is_play (Tick 16) \<and>
     isDone played_out \<and> resolveDonePlaying played_out = Some 0 \<and> sprites played_out \<noteq> [] \<and>
     resolved 0 played_out \<and>
     \<not> resolved (fst (play 1 1 played_out)) (run [Tick 16] (snd (play 1 1 played_out)))"
    by code_simp
  with promise_lifecycle [of "Tick 16" played_out 6 6 0 1 1 "[Tick 16]" 2 2
      "[Tick 100, Tick 100, Draw 7 7]"]
  show ?thesis by blast
qed

section \<open>Ticking a group\<close>

lemma length_group_tick [simp]: "length (group_tick atick d ms) = length ms"
  by (induction ms) auto

lemma nth_group_tick:
  "i < length ms \<Longrightarrow>
     group_tick atick d ms ! i = (fst (ms ! i), graphic_tick atick d (snd (ms ! i)))"
proof (induction ms arbitrary: i)
  case Nil
  then show ?case by simp
next
  case (Cons m ms)
  then show ?case by (cases m; cases i) simp_all
qed

lemma animations_of_tick:
  fixes ms :: "(vector \<times> ('a, 'i) graphic) list" and g :: "('a, 'i) graphic"
  shows "animations_of (group_tick atick d ms) = map (atick d) (animations_of ms)"
    and "graphic_animations (graphic_tick atick d g) = map (atick d) (graphic_animations g)"
  by (induction ms and g rule: animations_of_graphic_animations.induct) simp_all

lemma images_of_tick:
  fixes ms :: "(vector \<times> ('a, 'i) graphic) list" and g :: "('a, 'i) graphic"
  shows "images_of (group_tick atick d ms) = images_of ms"
    and "graphic_images (graphic_tick atick d g) = graphic_images g"
  by (induction ms and g rule: images_of_graphic_images.induct) simp_all

text \<open>
  C8: \<open>tick\<close> of a group keeps the members, their order and their positions. A member
  that is an animation is ticked once with the delta the group received, a member that is
  a group is ticked with the same delta in the same way, and any other member is left as
  it is. Over the whole nesting, every animation is ticked once with that delta and every
  image is untouched.
\<close>

theorem group_tick_forwards:
  "length (group_tick atick d ms) = length ms \<and>
   (\<forall>i < length ms.
      fst (group_tick atick d ms ! i) = fst (ms ! i) \<and>
      (case snd (ms ! i) of
         Animation a \<Rightarrow> snd (group_tick atick d ms ! i) = Animation (atick d a)
       | GraphicsGroup sub \<Rightarrow>
           snd (group_tick atick d ms ! i) = GraphicsGroup (group_tick atick d sub)
       | Image im \<Rightarrow> snd (group_tick atick d ms ! i) = Image im) \<and>
      (\<not> isAnimationOrGroup (snd (ms ! i)) \<longrightarrow> group_tick atick d ms ! i = ms ! i)) \<and>
   animations_of (group_tick atick d ms) = map (atick d) (animations_of ms) \<and>
   images_of (group_tick atick d ms) = images_of ms"
  by (auto simp add: nth_group_tick animations_of_tick images_of_tick
      split: graphic.splits intro: prod_eqI)

theorem group_tick_forwards_witness:
  "(1::nat) < length a_group \<and>
   snd (a_group ! 1) = Animation [] \<and>
   snd (group_tick record_delta 16 a_group ! 1) = Animation [16] \<and>
   \<not> isAnimationOrGroup (snd (a_group ! 0)) \<and>
   group_tick record_delta 16 a_group ! 0 = a_group ! 0 \<and>
   animations_of (group_tick record_delta 16 a_group) = [[16], [1, 16]] \<and>
   images_of (group_tick record_delta 16 a_group) = [7, 9]"
  using group_tick_forwards [of record_delta 16 a_group]
  by (simp add: a_group_def record_delta_def)

section \<open>Leaving and entering the viewport\<close>




text \<open>
  C7: for an actor that is on screen, \<open>update\<close> publishes exactly one exit event and sets
  the off-screen flag when the zoomed rectangle has its right edge below 0, its bottom edge
  below 0, its left edge beyond the viewport width or its top edge beyond the viewport
  height; otherwise it publishes nothing and leaves the flag. One call publishes at most
  one event, and it publishes one exactly when the flag changes.
\<close>

theorem update_on_screen:
  "\<not> isOffScreen a \<and> fst (actor_scale a) \<noteq> 0 \<and> snd (actor_scale a) \<noteq> 0 \<and>
   actor_screen_coords a e = (x, y) \<and> actor_size a = (w, h) \<and> actor_zoom a = zoom \<longrightarrow>
     (if x + w * zoom < 0 \<or> y + h * zoom < 0 \<or> x > engine_width e \<or> y > engine_height e
      then published (update a e delta) = published a @ [(''exitviewport'', ExitViewPortEvent)] \<and>
           isOffScreen (update a e delta)
      else published (update a e delta) = published a \<and>
           isOffScreen (update a e delta) = isOffScreen a) \<and>
     (\<exists>evs. published (update a e delta) = published a @ evs \<and> length evs \<le> 1 \<and>
        (isOffScreen (update a e delta) \<noteq> isOffScreen a \<longleftrightarrow> length evs = 1))"
  by (auto simp add: exit_condition_def enter_condition_def update_def split: prod.splits)

theorem update_on_screen_witness:
  "\<not> isOffScreen (an_actor False (-25) 0 (Some 2)) \<and>
   fst (actor_scale (an_actor False (-25) 0 (Some 2))) \<noteq> 0 \<and>
   snd (actor_scale (an_actor False (-25) 0 (Some 2))) \<noteq> 0 \<and>
   actor_screen_coords (an_actor False (-25) 0 (Some 2)) viewport = (-25, 0) \<and>
   actor_size (an_actor False (-25) 0 (Some 2)) = (10, 10) \<and>
   actor_zoom (an_actor False (-25) 0 (Some 2)) = 2 \<and>
   (-25::real) + 10 * 2 < 0 \<and>
   published (update (an_actor False (-25) 0 (Some 2)) viewport 16)
     = [(''exitviewport'', ExitViewPortEvent)] \<and>
   isOffScreen (update (an_actor False (-25) 0 (Some 2)) viewport 16)"
  using update_on_screen [of "an_actor False (-25) 0 (Some 2)" viewport "-25" 0 10 10 2 16]
  by (simp add: actor_screen_coords_def actor_size_def actor_zoom_def an_actor_def viewport_def)

end
